theory Spec2Isabelle
  imports Main
begin

section \<open>Values of the program\<close>

text \<open>
  A Python \<^verbatim>\<open>str\<close> is a sequence of Unicode code points, so it is modelled as a list of
  natural numbers. \<open>S\<close> turns an ASCII literal of the source into such a list. Names
  that the source only ever writes as literals (environment variables, secret names,
  session keys) stay Isabelle strings.
\<close>

type_synonym str = "nat list"

definition S :: "string \<Rightarrow> str" where
  "S s = map of_char s"

text \<open>
  An exception that is an instance of \<^verbatim>\<open>Exception\<close>: its class name and \<^verbatim>\<open>str(e)\<close>.
\<close>

datatype exn = Exn string str

fun str_of :: "exn \<Rightarrow> str" where
  "str_of (Exn cls msg) = msg"

text \<open>
  The values kept in \<^verbatim>\<open>st.session_state\<close> by this program, with Python's truth value and
  Python's \<^verbatim>\<open>==\<close> against a string.
\<close>

datatype pyval = Str str | Bool bool

fun truthy :: "pyval \<Rightarrow> bool" where
  "truthy (Str s) = (s \<noteq> [])"
| "truthy (Bool b) = b"

type_synonym session = "string \<rightharpoonup> pyval"

text \<open>
  The request \<^verbatim>\<open>client.chat.completions.create\<close> receives: the key the client was built
  with, the model name, and the contents of the system and the user message.
\<close>

record request =
  api_key :: str
  model :: str
  system_content :: str
  user_content :: str

text \<open>
  Everything outside the script that a piece of code depends on, as that code finds it
  when it starts.
  \<^item> \<open>getenv\<close> is \<^verbatim>\<open>os.environ\<close> as \<^verbatim>\<open>os.getenv\<close> reads it. It is process state: the
    script never assigns to it, but reading the secret store does (see below), so the
    functions of the model hand the environment on to the code that runs after them.
  \<^item> \<open>secrets\<close> is \<^verbatim>\<open>st.secrets\<close>; \<open>None\<close> is a store whose access raises (no secrets
    file, or any other failure). Secret values are taken to be strings.
  \<^item> \<open>draw\<close> is the index \<^verbatim>\<open>random.choice\<close> draws.
  \<^item> \<open>new_client\<close> is the constructor \<^verbatim>\<open>OpenAI(api_key=...)\<close> of line 33: the exception it
    raises for a key, or \<open>None\<close> when it builds the client.
  \<^item> \<open>create\<close> is the provider: it raises, or answers with the list of
    \<^verbatim>\<open>choices\<close>, each given by its \<^verbatim>\<open>message.content\<close> (a string or \<^verbatim>\<open>None\<close>).
  \<^item> \<open>format_other\<close> is what \<^verbatim>\<open>str.format(poet=...)\<close> makes of a template remainder that
    starts with a brace which is neither an escaped brace nor the field \<^verbatim>\<open>{poet}\<close>.
\<close>

record world =
  getenv :: "string \<rightharpoonup> str"
  secrets :: "(string \<rightharpoonup> str) option"
  draw :: nat
  new_client :: "str \<Rightarrow> exn option"
  create :: "request \<Rightarrow> exn + str option list"
  format_other :: "str \<Rightarrow> str \<Rightarrow> exn + str"

text \<open>What a run puts on the page.\<close>

datatype ui =
    Page_config
  | Warning str
  | Error str
  | Info str
  | Password_input
  | Css
  | Title str
  | Day_form
  | Spinner str
  | Poem_frame str
  | Poem_attributed str str
  | Uncaught exn

section \<open>Reading the configuration\<close>

text \<open>
  The pattern of lines 17 to 27, 52 to 58 and 81 to 88: the environment variable first;
  when it is unset or empty the secret store is asked, and any exception of the store is
  swallowed. \<open>config_value\<close> is the value the pattern ends with.
\<close>

definition config_value :: "world \<Rightarrow> string \<Rightarrow> str option" where
  "config_value w name =
     (let v = getenv w name in
      if v \<noteq> None \<and> v \<noteq> Some [] then v
      else (case secrets w of
              None \<Rightarrow> v
            | Some store \<Rightarrow> (case store name of None \<Rightarrow> v | Some s \<Rightarrow> Some s)))"

text \<open>
  What the pattern leaves behind. When the framework reads the secret store it also
  writes every entry of the store into \<^verbatim>\<open>os.environ\<close>, over what was there. So a lookup
  that had to ask a store that can be read leaves the environment overwritten with the
  store; a lookup that found the variable, or whose store fails, leaves it as it was.
\<close>

definition after_lookup :: "world \<Rightarrow> string \<Rightarrow> world" where
  "after_lookup w name =
     (let v = getenv w name in
      if v \<noteq> None \<and> v \<noteq> Some [] then w
      else (case secrets w of
              None \<Rightarrow> w
            | Some store \<Rightarrow> w\<lparr>getenv := getenv w ++ store\<rparr>))"

section \<open>The generator\<close>

definition poets :: "str list" where
  "poets =
     [S ''Emily Dickinson'', S ''T.S. Eliot'', S ''Langston Hughes'', S ''Sylvia Plath'',
      S ''Seamus Heaney'', S ''Shel Silverstein'', S ''Lewis Carroll'', S ''Robert Frost'',
      S ''Ogden Nash'', S ''Pablo Neruda'', S ''Dr. Seuss'']"

text \<open>
  \<^verbatim>\<open>random.choice(seq)\<close> raises IndexError on an empty sequence and otherwise returns
  \<^verbatim>\<open>seq[i]\<close> for an index \<open>i\<close> below the length, drawn by the library. The draw is given
  as a natural number and reduced modulo the length, so that every value of it stands
  for an index the library can draw, and every such index is the value of some draw.
\<close>

definition random_choice :: "nat \<Rightarrow> 'a list \<Rightarrow> exn + 'a" where
  "random_choice r xs =
     (if xs = [] then Inl (Exn ''IndexError'' (S ''Cannot choose from an empty sequence''))
      else Inr (xs ! (r mod length xs)))"

text \<open>Line 48, as a function of the list.\<close>

definition select_poet :: "nat \<Rightarrow> str list \<Rightarrow> exn + str" where
  "select_poet r ps = (if ps \<noteq> [] then random_choice r ps else Inr (S ''Unknown Poet''))"

definition default_template :: str where
  "default_template =
     S ''You are {poet}. Write a short poem based on the user's description of their day.''"

text \<open>
  \<^verbatim>\<open>template.format(poet=p)\<close>, read from left to right (the code points 123 and 125
  are the opening and the closing brace): a doubled brace gives one brace,
  the field \<^verbatim>\<open>{poet}\<close> gives \<open>p\<close>, every other character is copied. At any other brace
  (a single closing brace, a field with another name, a conversion, a format
  specification, an attribute or an index) the result for the rest of the template is
  the library's, \<open>other\<close>: an exception or the text it renders.
\<close>

function str_format :: "(str \<Rightarrow> str \<Rightarrow> exn + str) \<Rightarrow> str \<Rightarrow> str \<Rightarrow> exn + str" where
  "str_format other [] p = Inr []"
| "str_format other (c # cs) p =
     (if c = 123 \<and> take 5 cs = S ''poet}'' then
        (case str_format other (drop 5 cs) p of Inl e \<Rightarrow> Inl e | Inr out \<Rightarrow> Inr (p @ out))
      else if (c = 123 \<or> c = 125) \<and> take 1 cs = [c] then
        (case str_format other (drop 1 cs) p of Inl e \<Rightarrow> Inl e | Inr out \<Rightarrow> Inr (c # out))
      else if c = 123 \<or> c = 125 then other (c # cs) p
      else (case str_format other cs p of Inl e \<Rightarrow> Inl e | Inr out \<Rightarrow> Inr (c # out)))"
  by pat_completeness auto
termination
  by (relation "measure (\<lambda>(other, t, p). length t)") auto

text \<open>
  What \<^verbatim>\<open>get_poem\<close> does: the pair it returns, the error banners it shows, and the
  requests it sent to the provider.
\<close>

record poem_run =
  returned :: "str option \<times> str option"
  banners :: "ui list"
  requests :: "request list"

definition no_key :: poem_run where
  "no_key =
     \<lparr>returned = (None, None),
      banners = [Error (S ''OpenAI API Key not found. Please set it in a .env file or Streamlit secrets.'')],
      requests = []\<rparr>"

text \<open>The handler of lines 73 to 75, after the requests \<open>rs\<close> were sent.\<close>

definition failed :: "exn \<Rightarrow> request list \<Rightarrow> poem_run" where
  "failed e rs =
     \<lparr>returned = (None, None),
      banners = [Error (S ''Error generating poem: '' @ str_of e)],
      requests = rs\<rparr>"

text \<open>
  \<open>Inl\<close> is an exception that leaves \<^verbatim>\<open>get_poem\<close> uncaught: the constructor of line 33
  and the selection of line 48 stand before the \<^verbatim>\<open>try\<close>. The template is looked up in
  the environment as the lookup of the key left it.
\<close>

definition get_poem :: "world \<Rightarrow> str \<Rightarrow> exn + poem_run" where
  "get_poem w day_description =
     (case config_value w ''OPENAI_API_KEY'' of
        None \<Rightarrow> Inr no_key
      | Some key \<Rightarrow>
          if key = [] then Inr no_key
          else
            (case new_client w key of
               Some e \<Rightarrow> Inl e
             | None \<Rightarrow>
                 (case select_poet (draw w) poets of
                    Inl e \<Rightarrow> Inl e
                  | Inr selected_poet \<Rightarrow>
                      let system_prompt_template =
                            (case config_value (after_lookup w ''OPENAI_API_KEY'')
                                    ''POEM_SYSTEM_PROMPT'' of
                               None \<Rightarrow> default_template
                             | Some t \<Rightarrow> if t = [] then default_template else t)
                      in
                      (case str_format (format_other w) system_prompt_template selected_poet of
                         Inl e \<Rightarrow> Inr (failed e [])
                       | Inr instruction \<Rightarrow>
                           let req = \<lparr>api_key = key, model = S ''gpt-5.1'',
                                      system_content = instruction,
                                      user_content = day_description\<rparr>
                           in
                           (case create w req of
                              Inl e \<Rightarrow> Inr (failed e [req])
                            | Inr [] \<Rightarrow>
                                Inr (failed (Exn ''IndexError'' (S ''list index out of range''))
                                       [req])
                            | Inr (content # rest) \<Rightarrow>
                                Inr \<lparr>returned = (content, Some selected_poet), banners = [],
                                     requests = [req]\<rparr>)))))"

section \<open>The access gate\<close>

text \<open>
  The state of one browser session between two runs: \<^verbatim>\<open>st.session_state\<close>, and the
  callback of the password input when the last run rendered it. The callback is the
  closure \<^verbatim>\<open>password_entered\<close>, given by the \<^verbatim>\<open>correct_password\<close> it closed over. The
  session state changes by what the script and the password input do to it. That the
  framework drops the entry of a widget after a run that did not render the widget is
  left out: it can only remove the entry of the password input after a run without
  the input, and the theorems of the claims do not rely on that entry being kept.
\<close>

record app =
  session_state :: session
  on_change :: "str option"

text \<open>
  \<^verbatim>\<open>st.text_input(..., key="password")\<close>: a widget with a key that is not yet in the session
  state enters it with its initial value, the empty string.
\<close>

definition text_input :: "session \<Rightarrow> session" where
  "text_input ss = (if ''password'' \<in> dom ss then ss else ss(''password'' \<mapsto> Str []))"

text \<open>
  The callback. The branch for a session without the entry of the input stands for the
  KeyError of the framework, whose message is the framework's own; no event below
  reaches it, since the entry is written before the callback is called.
\<close>

definition password_entered :: "str \<Rightarrow> session \<Rightarrow> exn + session" where
  "password_entered correct_password ss =
     (case ss ''password'' of
        None \<Rightarrow> Inl (Exn ''KeyError'' (39 # S ''password'' @ [39]))
      | Some v \<Rightarrow>
          if v = Str correct_password then
            Inr ((ss(''password_correct'' \<mapsto> Bool True))(''password'' := None))
          else Inr (ss(''password_correct'' \<mapsto> Bool False)))"

text \<open>
  What \<^verbatim>\<open>check_password\<close> does: the value it returns, what it shows, the session it
  leaves, and \<^verbatim>\<open>os.environ\<close> as its lookup of the password left it.
\<close>

record gate_run =
  granted :: bool
  shown :: "ui list"
  left :: app
  environment :: "string \<rightharpoonup> str"

definition misconfigured :: "(string \<rightharpoonup> str) \<Rightarrow> session \<Rightarrow> gate_run" where
  "misconfigured env ss =
     \<lparr>granted = False,
      shown = [Warning (S ''App is password protected but APP_PASSWORD is not set.'')],
      left = \<lparr>session_state = ss, on_change = None\<rparr>,
      environment = env\<rparr>"

definition check_password :: "world \<Rightarrow> session \<Rightarrow> gate_run" where
  "check_password w ss =
     (let env = getenv (after_lookup w ''APP_PASSWORD'') in
      case config_value w ''APP_PASSWORD'' of
        None \<Rightarrow> misconfigured env ss
      | Some correct_password \<Rightarrow>
          if correct_password = [] then misconfigured env ss
          else
            (case ss ''password_correct'' of
               None \<Rightarrow>
                 \<lparr>granted = False, shown = [Password_input],
                  left = \<lparr>session_state = text_input ss, on_change = Some correct_password\<rparr>,
                  environment = env\<rparr>
             | Some v \<Rightarrow>
                 if \<not> truthy v then
                   \<lparr>granted = False,
                    shown = [Password_input, Error (128533 # S '' Password incorrect'')],
                    left = \<lparr>session_state = text_input ss, on_change = Some correct_password\<rparr>,
                    environment = env\<rparr>
                 else
                   \<lparr>granted = True, shown = [],
                    left = \<lparr>session_state = ss, on_change = None\<rparr>,
                    environment = env\<rparr>))"

section \<open>The page\<close>

text \<open>
  \<^verbatim>\<open>str.strip()\<close> removes the leading and the trailing characters that Python counts as
  whitespace.
\<close>

definition isspace :: "nat \<Rightarrow> bool" where
  "isspace c =
     ((9 \<le> c \<and> c \<le> 13) \<or> (28 \<le> c \<and> c \<le> 32) \<or> c = 133 \<or> c = 160 \<or> c = 5760
      \<or> (8192 \<le> c \<and> c \<le> 8202) \<or> c = 8232 \<or> c = 8233 \<or> c = 8239 \<or> c = 8287
      \<or> c = 12288)"

definition strip :: "str \<Rightarrow> str" where
  "strip s = rev (dropWhile isspace (rev (dropWhile isspace s)))"

text \<open>\<^verbatim>\<open>replace('\n', '<br>')\<close>.\<close>

definition br :: "str \<Rightarrow> str" where
  "br s = concat (map (\<lambda>c. if c = 10 then S ''<br>'' else [c]) s)"

text \<open>Lines 267 to 290: one frame for each character of the poem, then the attribution.\<close>

definition typewriter :: "str \<Rightarrow> str \<Rightarrow> ui list" where
  "typewriter poem poet =
     map (\<lambda>n. Poem_frame (br (take n poem))) [1..<Suc (length poem)]
     @ [Poem_attributed (br poem) poet]"

text \<open>
  One run of \<^verbatim>\<open>main\<close> under the framework: the page, the session it leaves, and what
  \<^verbatim>\<open>get_poem\<close> did when it was called. \<open>day_input\<close> and \<open>submitted\<close> are the values the form
  has in this run. \<^verbatim>\<open>get_poem\<close> runs in the environment that \<^verbatim>\<open>check_password\<close> left. An
  exception that the script does not catch ends the run; the framework shows it on the
  page and the session goes on.
\<close>

record page_run =
  page :: "ui list"
  after :: app
  generated :: "(exn + poem_run) option"

definition main :: "world \<Rightarrow> session \<Rightarrow> str \<Rightarrow> bool \<Rightarrow> exn + page_run" where
  "main w ss day_input submitted =
     (let gate = check_password w ss in
      if \<not> granted gate then
        Inr \<lparr>page = Page_config # shown gate, after = left gate, generated = None\<rparr>
      else
        let top = Page_config # shown gate @ [Css, Title (S ''How was your day today?''), Day_form]
        in
        if submitted then
          if strip day_input \<noteq> [] then
            (case get_poem (w\<lparr>getenv := environment gate\<rparr>) day_input of
               Inl e \<Rightarrow>
                 Inr \<lparr>page = top @ [Spinner (S ''Writing...''), Uncaught e],
                      after = left gate, generated = Some (Inl e)\<rparr>
             | Inr g \<Rightarrow>
                 Inr \<lparr>page =
                        top @ [Spinner (S ''Writing...'')] @ banners g @
                        (case returned g of
                           (Some poem, Some poet) \<Rightarrow>
                             if poem \<noteq> [] \<and> poet \<noteq> [] then typewriter poem poet else []
                         | _ \<Rightarrow> []),
                      after = left gate, generated = Some (Inr g)\<rparr>)
          else
            Inr \<lparr>page = top @ [Info (S ''Please share a few words first.'')],
                 after = left gate, generated = None\<rparr>
        else Inr \<lparr>page = top, after = left gate, generated = None\<rparr>)"

section \<open>The session over time\<close>

text \<open>
  What the framework does between runs. Any interaction reruns the script with the
  current values of the form. Entering a password is possible only while the password
  input is on the page: the framework stores the entered text under the widget's key,
  calls the widget's callback, and reruns the script. \<open>Enter_password s\<close> is the event
  that the value of the input changed to \<open>s\<close>. \<open>None\<close> is an event that cannot happen in
  the state. Each step comes with the world its run starts in.
\<close>

datatype event = Enter_password str | Rerun str bool

fun step :: "world \<Rightarrow> event \<Rightarrow> app \<Rightarrow> (exn + page_run) option" where
  "step w (Rerun day_input submitted) a = Some (main w (session_state a) day_input submitted)"
| "step w (Enter_password s) a =
     (case on_change a of
        None \<Rightarrow> None
      | Some correct_password \<Rightarrow>
          Some (case password_entered correct_password ((session_state a)(''password'' \<mapsto> Str s)) of
                  Inl e \<Rightarrow> Inl e
                | Inr ss \<Rightarrow> main w ss [] False))"

fun run :: "app \<Rightarrow> (world \<times> event) list \<Rightarrow> (exn + app) option" where
  "run a [] = Some (Inr a)"
| "run a ((w, e) # es) =
     (case step w e a of
        None \<Rightarrow> None
      | Some (Inl x) \<Rightarrow> Some (Inl x)
      | Some (Inr r) \<Rightarrow> run (after r) es)"

section \<open>Concrete configurations\<close>

text \<open>
  Configurations on which the theorems below are instantiated: a password and an API key
  in the environment, no secrets file, the draw that selects the eighth poet; the
  provider is left open. The second one has nothing configured at all.
\<close>

definition example_world :: "(request \<Rightarrow> exn + str option list) \<Rightarrow> world" where
  "example_world provider =
     \<lparr>getenv = [''APP_PASSWORD'' \<mapsto> S ''secret'', ''OPENAI_API_KEY'' \<mapsto> S ''sk-test''],
      secrets = None,
      draw = 7,
      new_client = (\<lambda>key. None),
      create = provider,
      format_other = (\<lambda>t p. Inl (Exn ''ValueError'' t))\<rparr>"

definition bare_world :: world where
  "bare_world =
     \<lparr>getenv = Map.empty,
      secrets = None,
      draw = 0,
      new_client = (\<lambda>key. None),
      create = (\<lambda>req. Inr [Some (S ''Rain taps soft'')]),
      format_other = (\<lambda>t p. Inl (Exn ''ValueError'' t))\<rparr>"

text \<open>A provider that answers, one that raises, and one whose answer has no content.\<close>

definition answering :: "request \<Rightarrow> exn + str option list" where
  "answering req = Inr [Some (S ''Rain taps soft'')]"

definition unreachable :: "request \<Rightarrow> exn + str option list" where
  "unreachable req = Inl (Exn ''APIConnectionError'' (S ''Connection error.''))"

definition silent :: "request \<Rightarrow> exn + str option list" where
  "silent req = Inr [None]"

text \<open>A provider that raises an exception without a message.\<close>

definition mute :: "request \<Rightarrow> exn + str option list" where
  "mute req = Inl (Exn ''TimeoutError'' [])"

text \<open>
  A fresh process with the key in the secret store only and a template in both sources,
  and one with the password in the store only and a key in both sources.
\<close>

definition store_world :: world where
  "store_world =
     \<lparr>getenv = [''POEM_SYSTEM_PROMPT'' \<mapsto> S ''Env {poet}''],
      secrets = Some [''OPENAI_API_KEY'' \<mapsto> S ''sk-store'',
                      ''POEM_SYSTEM_PROMPT'' \<mapsto> S ''Store {poet}''],
      draw = 7,
      new_client = (\<lambda>key. None),
      create = answering,
      format_other = (\<lambda>t p. Inl (Exn ''ValueError'' t))\<rparr>"

definition gate_store_world :: world where
  "gate_store_world =
     \<lparr>getenv = [''OPENAI_API_KEY'' \<mapsto> S ''sk-env''],
      secrets = Some [''APP_PASSWORD'' \<mapsto> S ''secret'',
                      ''OPENAI_API_KEY'' \<mapsto> S ''sk-store''],
      draw = 7,
      new_client = (\<lambda>key. None),
      create = answering,
      format_other = (\<lambda>t p. Inl (Exn ''ValueError'' t))\<rparr>"

text \<open>A configuration in which the client cannot be built.\<close>

definition broken_client_world :: world where
  "broken_client_world =
     \<lparr>getenv = [''APP_PASSWORD'' \<mapsto> S ''secret'', ''OPENAI_API_KEY'' \<mapsto> S ''sk-test''],
      secrets = None,
      draw = 7,
      new_client = (\<lambda>key. Some (Exn ''OpenAIError'' (S ''client could not be built''))),
      create = answering,
      format_other = (\<lambda>t p. Inl (Exn ''ValueError'' t))\<rparr>"


text \<open>
  The session after the first run under \<open>example_world\<close>: the password input is on the
  page, still empty.
\<close>

definition first_page :: app where
  "first_page = \<lparr>session_state = [''password'' \<mapsto> Str []], on_change = Some (S ''secret'')\<rparr>"

section \<open>The generator and the page\<close>

lemma length_poets: "length poets = 11"
  by (simp add: poets_def)

lemma poets_nonempty: "poets \<noteq> []"
  using length_poets by auto

lemma select_poet_poets: "select_poet r poets = Inr (poets ! (r mod 11))"
  by (simp add: select_poet_def random_choice_def poets_nonempty length_poets)

text \<open>Only the constructor of the client lets an exception out of the generator.\<close>

lemma get_poem_raises:
  assumes "get_poem w d = Inl x"
  shows "\<exists>key. config_value w ''OPENAI_API_KEY'' = Some key \<and> key \<noteq> [] \<and> new_client w key = Some x"
  using assms
  by (auto simp: get_poem_def select_poet_poets Let_def
           split: option.splits sum.splits list.splits if_splits)

lemma get_poem_returns:
  assumes "\<forall>key. config_value w ''OPENAI_API_KEY'' = Some key \<longrightarrow> new_client w key = None"
  shows "\<exists>g. get_poem w d = Inr g"
proof (cases "get_poem w d")
  case (Inl x)
  from get_poem_raises [OF Inl] assms show ?thesis by auto
next
  case (Inr g)
  then show ?thesis by simp
qed

lemma main_returns: "\<exists>r. main w ss d sub = Inr r"
  by (auto simp: main_def Let_def split: sum.splits)

section \<open>The gate without a password\<close>

lemma password_unset:
  assumes "getenv w ''APP_PASSWORD'' = None \<or> getenv w ''APP_PASSWORD'' = Some []"
    and "secrets w = None \<or>
         (\<exists>store. secrets w = Some store \<and>
            (store ''APP_PASSWORD'' = None \<or> store ''APP_PASSWORD'' = Some []))"
  shows "config_value w ''APP_PASSWORD'' = None \<or> config_value w ''APP_PASSWORD'' = Some []"
  using assms by (auto simp: config_value_def)

lemma check_password_unset:
  assumes "config_value w ''APP_PASSWORD'' = None \<or> config_value w ''APP_PASSWORD'' = Some []"
  shows "check_password w ss = misconfigured (getenv (after_lookup w ''APP_PASSWORD'')) ss"
  using assms by (auto simp: check_password_def Let_def)

lemma main_unset:
  assumes "config_value w ''APP_PASSWORD'' = None \<or> config_value w ''APP_PASSWORD'' = Some []"
  shows "main w ss d sub =
     Inr \<lparr>page = [Page_config, Warning (S ''App is password protected but APP_PASSWORD is not set.'')],
          after = \<lparr>session_state = ss, on_change = None\<rparr>, generated = None\<rparr>"
  by (simp add: main_def check_password_unset [OF assms] misconfigured_def)

lemma password_entered_returns:
  "\<exists>ss'. password_entered cp (ss(''password'' \<mapsto> Str s)) = Inr ss'"
  by (simp add: password_entered_def)

section \<open>The gate once the flag is set\<close>

lemma check_password_correct:
  assumes "config_value w ''APP_PASSWORD'' = Some p" and "p \<noteq> []"
    and "ss ''password_correct'' = Some (Bool True)"
  shows "check_password w ss =
     \<lparr>granted = True, shown = [], left = \<lparr>session_state = ss, on_change = None\<rparr>,
      environment = getenv (after_lookup w ''APP_PASSWORD'')\<rparr>"
  using assms by (simp add: check_password_def Let_def)

lemma banners_no_input: "get_poem w d = Inr g \<Longrightarrow> Password_input \<notin> set (banners g)"
  by (auto simp: get_poem_def select_poet_poets Let_def no_key_def failed_def
           split: option.splits sum.splits list.splits if_splits)

lemma typewriter_no_input: "Password_input \<notin> set (typewriter poem poet)"
  by (auto simp: typewriter_def)

lemma main_correct:
  assumes "config_value w ''APP_PASSWORD'' = Some p" and "p \<noteq> []"
    and "ss ''password_correct'' = Some (Bool True)"
  shows "\<exists>r. main w ss d sub = Inr r \<and> after r = \<lparr>session_state = ss, on_change = None\<rparr>
           \<and> Day_form \<in> set (page r) \<and> Password_input \<notin> set (page r)"
proof (cases "get_poem (w\<lparr>getenv := getenv (after_lookup w ''APP_PASSWORD'')\<rparr>) d")
  case (Inl e)
  then show ?thesis
    by (simp add: main_def check_password_correct [where ss = ss, OF assms] Let_def)
next
  case (Inr g)
  with banners_no_input [OF Inr] show ?thesis
    by (auto simp: main_def check_password_correct [where ss = ss, OF assms] Let_def
          typewriter_no_input split: option.splits)
qed

lemma run_no_input:
  assumes "\<forall>(w', e) \<in> set es. \<exists>p. config_value w' ''APP_PASSWORD'' = Some p \<and> p \<noteq> []"
    and "ss ''password_correct'' = Some (Bool True)"
  shows "run \<lparr>session_state = ss, on_change = None\<rparr> es =
           (if \<exists>(w', e) \<in> set es. \<exists>s. e = Enter_password s then None
            else Some (Inr \<lparr>session_state = ss, on_change = None\<rparr>))"
  using assms(1)
proof (induction es)
  case Nil
  then show ?case by simp
next
  case (Cons we es)
  obtain w' e where we: "we = (w', e)" by (cases we)
  from Cons.prems we obtain p where p: "config_value w' ''APP_PASSWORD'' = Some p" "p \<noteq> []"
    by auto
  from Cons have IH: "run \<lparr>session_state = ss, on_change = None\<rparr> es =
           (if \<exists>(w', e) \<in> set es. \<exists>s. e = Enter_password s then None
            else Some (Inr \<lparr>session_state = ss, on_change = None\<rparr>))"
    by simp
  show ?case
  proof (cases e)
    case (Enter_password s)
    with we show ?thesis by simp
  next
    case (Rerun d sub)
    obtain r where r: "main w' ss d sub = Inr r" "after r = \<lparr>session_state = ss, on_change = None\<rparr>"
      using main_correct [where ss = ss, OF p assms(2)] by blast
    with we Rerun IH show ?thesis by simp
  qed
qed

section \<open>What a run of the page needs\<close>

lemma check_password_granted:
  assumes "granted (check_password w ss)"
  shows "check_password w ss =
           \<lparr>granted = True, shown = [], left = \<lparr>session_state = ss, on_change = None\<rparr>,
            environment = getenv (after_lookup w ''APP_PASSWORD'')\<rparr>
         \<and> (\<exists>v. ss ''password_correct'' = Some v \<and> truthy v)
         \<and> (\<exists>p. config_value w ''APP_PASSWORD'' = Some p \<and> p \<noteq> [])"
  using assms
  by (auto simp: check_password_def misconfigured_def Let_def split: option.splits if_splits)

lemma check_password_refused:
  assumes "\<not> granted (check_password w ss)"
  shows "Day_form \<notin> set (shown (check_password w ss))"
  by (auto simp: check_password_def misconfigured_def Let_def split: option.splits if_splits)

lemma main_generated:
  assumes "main w ss d sub = Inr r" and "generated r \<noteq> None"
  shows "granted (check_password w ss) \<and> sub \<and> strip d \<noteq> []
         \<and> generated r =
             Some (get_poem (w\<lparr>getenv := environment (check_password w ss)\<rparr>) d)"
  using assms
  by (auto simp: main_def Let_def split: if_splits sum.splits)

lemma main_refused:
  assumes "\<not> granted (check_password w ss)"
  shows "main w ss d sub =
           Inr \<lparr>page = Page_config # shown (check_password w ss),
                after = left (check_password w ss), generated = None\<rparr>"
  using assms by (simp add: main_def Let_def)

section \<open>The gate after a wrong password\<close>

text \<open>The first run of a new session puts the password input on the page.\<close>

lemma first_run:
  "main (example_world answering) Map.empty [] False =
     Inr \<lparr>page = [Page_config, Password_input], after = first_page, generated = None\<rparr>"
  by (simp add: main_def check_password_def config_value_def example_world_def text_input_def
        first_page_def Let_def S_def)

text \<open>
  A text other than the configured password leaves the gate closed: the flag is false,
  the next run shows the input with the error, and the callback stays. The entered text
  is still in the session under the key of the input.
\<close>

lemma wrong_password_keeps_the_gate_locked:
  assumes "config_value w ''APP_PASSWORD'' = Some cp" and "cp \<noteq> []"
    and "on_change a = Some cp" and "s \<noteq> cp"
  shows "step w (Enter_password s) a =
     Some (Inr \<lparr>page = [Page_config, Password_input, Error (128533 # S '' Password incorrect'')],
               after = \<lparr>session_state =
                          (session_state a)(''password'' \<mapsto> Str s, ''password_correct'' \<mapsto> Bool False),
                        on_change = Some cp\<rparr>,
               generated = None\<rparr>)"
  using assms
  by (simp add: password_entered_def main_def check_password_def text_input_def Let_def)

section \<open>Formatting the template and calling the provider\<close>

lemma distinct_poets: "distinct poets"
  by (simp add: poets_def S_def)

lemma str_format_literal:
  "123 \<notin> set t \<Longrightarrow> 125 \<notin> set t \<Longrightarrow>
   str_format other (t @ rest) p =
     (case str_format other rest p of Inl e \<Rightarrow> Inl e | Inr out \<Rightarrow> Inr (t @ out))"
  by (induction t) (auto split: sum.splits)

lemma str_format_poet:
  "str_format other (S ''{poet}'' @ rest) p =
     (case str_format other rest p of Inl e \<Rightarrow> Inl e | Inr out \<Rightarrow> Inr (p @ out))"
  by (simp add: S_def)

lemma str_format_placeholder:
  assumes "123 \<notin> set pre \<union> set post" and "125 \<notin> set pre \<union> set post"
  shows "str_format other (pre @ S ''{poet}'' @ post) p = Inr (pre @ p @ post)"
proof -
  from assms have pre: "123 \<notin> set pre" "125 \<notin> set pre" and post: "123 \<notin> set post" "125 \<notin> set post"
    by simp_all
  have "str_format other post p = Inr post"
    using str_format_literal [OF post, of other "[]" p] by simp
  then show ?thesis
    by (simp add: str_format_literal [OF pre] str_format_poet)
qed

lemma str_format_default:
  "str_format other default_template p =
     Inr (S ''You are '' @ p @ S ''. Write a short poem based on the user's description of their day.'')"
proof -
  have split: "default_template =
      S ''You are '' @ S ''{poet}'' @ S ''. Write a short poem based on the user's description of their day.''"
    by (simp add: default_template_def S_def)
  show ?thesis
    unfolding split by (rule str_format_placeholder) (simp_all add: S_def)
qed


text \<open>The lookup of the key, and what it leaves for the lookup of the template.\<close>

lemma after_lookup_found:
  assumes "getenv w name = Some v" and "v \<noteq> []"
  shows "after_lookup w name = w"
  using assms by (simp add: after_lookup_def)

lemma after_lookup_store_fails: "secrets w = None \<Longrightarrow> after_lookup w name = w"
  by (simp add: after_lookup_def Let_def)

lemma getenv_after_lookup_store:
  assumes "getenv w name = None \<or> getenv w name = Some []" and "secrets w = Some store"
  shows "getenv (after_lookup w name) = getenv w ++ store"
  using assms by (auto simp: after_lookup_def)

lemma secrets_after_lookup: "secrets (after_lookup w name) = secrets w"
  by (simp add: after_lookup_def Let_def split: option.splits)

lemma config_value_from_env:
  assumes "getenv w name = Some v" and "v \<noteq> []"
  shows "config_value w name = Some v"
  using assms by (simp add: config_value_def)

lemma config_value_from_store:
  assumes "getenv w name = None \<or> getenv w name = Some []"
    and "secrets w = Some store" and "store name = Some v"
  shows "config_value w name = Some v"
  using assms by (auto simp: config_value_def)

lemma get_poem_no_key:
  assumes "config_value w ''OPENAI_API_KEY'' = None \<or> config_value w ''OPENAI_API_KEY'' = Some []"
  shows "get_poem w d = Inr no_key"
  using assms by (auto simp: get_poem_def)

lemma get_poem_no_client:
  assumes "config_value w ''OPENAI_API_KEY'' = Some key" and "key \<noteq> []"
    and "new_client w key = Some e"
  shows "get_poem w d = Inl e"
  using assms by (simp add: get_poem_def)

lemma get_poem_with_key:
  assumes "config_value w ''OPENAI_API_KEY'' = Some key" and "key \<noteq> []"
    and "new_client w key = None"
    and "t = (case config_value (after_lookup w ''OPENAI_API_KEY'') ''POEM_SYSTEM_PROMPT'' of
                None \<Rightarrow> default_template
              | Some c \<Rightarrow> if c = [] then default_template else c)"
    and "str_format (format_other w) t (poets ! (draw w mod 11)) = Inr i"
    and "req = \<lparr>api_key = key, model = S ''gpt-5.1'', system_content = i, user_content = d\<rparr>"
  shows "get_poem w d =
     (case create w req of
        Inl e \<Rightarrow> Inr (failed e [req])
      | Inr [] \<Rightarrow> Inr (failed (Exn ''IndexError'' (S ''list index out of range'')) [req])
      | Inr (content # rest) \<Rightarrow>
          Inr \<lparr>returned = (content, Some (poets ! (draw w mod 11))), banners = [],
               requests = [req]\<rparr>)"
  using assms(1-5) unfolding assms(6) by (simp add: get_poem_def select_poet_poets Let_def)

lemma get_poem_format_fails:
  assumes "config_value w ''OPENAI_API_KEY'' = Some key" and "key \<noteq> []"
    and "new_client w key = None"
    and "t = (case config_value (after_lookup w ''OPENAI_API_KEY'') ''POEM_SYSTEM_PROMPT'' of
                None \<Rightarrow> default_template
              | Some c \<Rightarrow> if c = [] then default_template else c)"
    and "str_format (format_other w) t (poets ! (draw w mod 11)) = Inl e"
  shows "get_poem w d = Inr (failed e [])"
  using assms by (simp add: get_poem_def select_poet_poets Let_def)

text \<open>What the generator returns, whenever it returns.\<close>

lemma get_poem_shape:
  assumes "get_poem w d = Inr g"
  shows "returned g = (None, None) \<or>
      (\<exists>req rest. requests g = [req] \<and> banners g = []
         \<and> create w req = Inr (fst (returned g) # rest)
         \<and> snd (returned g) = Some (poets ! (draw w mod 11)))"
proof (cases "config_value w ''OPENAI_API_KEY'' = None \<or> config_value w ''OPENAI_API_KEY'' = Some []")
  case True
  from get_poem_no_key [OF True] assms show ?thesis
    by (auto simp: no_key_def)
next
  case False
  then obtain key where key: "config_value w ''OPENAI_API_KEY'' = Some key" "key \<noteq> []"
    by auto
  have client: "new_client w key = None"
  proof (cases "new_client w key")
    case None
    then show ?thesis .
  next
    case (Some e)
    from get_poem_no_client [OF key Some] assms show ?thesis by simp
  qed
  define t where "t = (case config_value (after_lookup w ''OPENAI_API_KEY'') ''POEM_SYSTEM_PROMPT'' of
                None \<Rightarrow> default_template
              | Some c \<Rightarrow> if c = [] then default_template else c)"
  show ?thesis
  proof (cases "str_format (format_other w) t (poets ! (draw w mod 11))")
    case (Inl e)
    from get_poem_format_fails [OF key client t_def Inl] assms show ?thesis
      by (auto simp: failed_def)
  next
    case (Inr i)
    define req where "req = \<lparr>api_key = key, model = S ''gpt-5.1'', system_content = i,
                              user_content = d\<rparr>"
    note run = get_poem_with_key [OF key client t_def Inr req_def]
    show ?thesis
    proof (cases "create w req")
      case (Inl e)
      with run assms show ?thesis by (auto simp: failed_def)
    next
      case answer: (Inr choices)
      show ?thesis
      proof (cases choices)
        case Nil
        with run answer assms show ?thesis by (auto simp: failed_def)
      next
        case (Cons content rest)
        with run answer assms show ?thesis by auto
      qed
    qed
  qed
qed

text \<open>What the generator does with the answer of the provider to the request it sent.\<close>

lemma get_poem_sent:
  assumes "get_poem w d = Inr g" and "requests g = [req]"
  shows "g = (case create w req of
        Inl e \<Rightarrow> failed e [req]
      | Inr [] \<Rightarrow> failed (Exn ''IndexError'' (S ''list index out of range'')) [req]
      | Inr (content # rest) \<Rightarrow>
          \<lparr>returned = (content, Some (poets ! (draw w mod 11))), banners = [],
           requests = [req]\<rparr>)
    \<and> config_value w ''OPENAI_API_KEY'' = Some (api_key req) \<and> api_key req \<noteq> []
    \<and> new_client w (api_key req) = None
    \<and> user_content req = d \<and> model req = S ''gpt-5.1''"
  using assms
  by (auto simp: get_poem_def select_poet_poets Let_def no_key_def failed_def
           split: option.splits sum.splits list.splits if_splits)

section \<open>The generator on the concrete configurations\<close>

lemma get_poem_example:
  "get_poem (example_world provider) d =
     (case provider \<lparr>api_key = S ''sk-test'', model = S ''gpt-5.1'',
                     system_content =
                       S ''You are Robert Frost. Write a short poem based on the user's description of their day.'',
                     user_content = d\<rparr> of
        Inl e \<Rightarrow>
          Inr (failed e [\<lparr>api_key = S ''sk-test'', model = S ''gpt-5.1'',
                     system_content =
                       S ''You are Robert Frost. Write a short poem based on the user's description of their day.'',
                     user_content = d\<rparr>])
      | Inr [] \<Rightarrow>
          Inr (failed (Exn ''IndexError'' (S ''list index out of range''))
                 [\<lparr>api_key = S ''sk-test'', model = S ''gpt-5.1'',
                     system_content =
                       S ''You are Robert Frost. Write a short poem based on the user's description of their day.'',
                     user_content = d\<rparr>])
      | Inr (content # rest) \<Rightarrow>
          Inr \<lparr>returned = (content, Some (S ''Robert Frost'')), banners = [],
               requests = [\<lparr>api_key = S ''sk-test'', model = S ''gpt-5.1'',
                     system_content =
                       S ''You are Robert Frost. Write a short poem based on the user's description of their day.'',
                     user_content = d\<rparr>]\<rparr>)"
proof -
  have env: "getenv (example_world provider) ''OPENAI_API_KEY'' = Some (S ''sk-test'')"
    by (simp add: example_world_def)
  have nonempty: "S ''sk-test'' \<noteq> []"
    by (simp add: S_def)
  note key = config_value_from_env [OF env nonempty]
  have same: "after_lookup (example_world provider) ''OPENAI_API_KEY'' = example_world provider"
    by (rule after_lookup_found [OF env nonempty])
  have client: "new_client (example_world provider) (S ''sk-test'') = None"
    by (simp add: example_world_def)
  have tmpl: "config_value (example_world provider) ''POEM_SYSTEM_PROMPT'' = None"
    by (simp add: config_value_def example_world_def)
  have poet: "poets ! (draw (example_world provider) mod 11) = S ''Robert Frost''"
    by (simp add: example_world_def poets_def)
  have instr: "str_format (format_other (example_world provider)) default_template
                 (poets ! (draw (example_world provider) mod 11)) =
               Inr (S ''You are Robert Frost. Write a short poem based on the user's description of their day.'')"
    unfolding poet str_format_default by (simp add: S_def)
  have t: "default_template =
      (case config_value (after_lookup (example_world provider) ''OPENAI_API_KEY'')
              ''POEM_SYSTEM_PROMPT'' of
         None \<Rightarrow> default_template
       | Some c \<Rightarrow> if c = [] then default_template else c)"
    by (simp add: same tmpl)
  have provider: "create (example_world provider) = provider"
    by (simp add: example_world_def)
  show ?thesis
    using get_poem_with_key [OF key nonempty client t instr refl, of d]
    by (simp only: provider poet)
qed

lemma get_poem_unreachable:
  "get_poem (example_world unreachable) (S ''a fine day'') =
     Inr \<lparr>returned = (None, None),
          banners = [Error (S ''Error generating poem: Connection error.'')],
          requests = [\<lparr>api_key = S ''sk-test'', model = S ''gpt-5.1'',
                     system_content =
                       S ''You are Robert Frost. Write a short poem based on the user's description of their day.'',
                     user_content = S ''a fine day''\<rparr>]\<rparr>"
  by (simp add: get_poem_example unreachable_def failed_def) (simp add: S_def)

lemma get_poem_mute:
  "get_poem (example_world mute) (S ''a fine day'') =
     Inr \<lparr>returned = (None, None),
          banners = [Error (S ''Error generating poem: '')],
          requests = [\<lparr>api_key = S ''sk-test'', model = S ''gpt-5.1'',
                     system_content =
                       S ''You are Robert Frost. Write a short poem based on the user's description of their day.'',
                     user_content = S ''a fine day''\<rparr>]\<rparr>"
  by (simp add: get_poem_example mute_def failed_def)

lemma get_poem_silent:
  "get_poem (example_world silent) (S ''a fine day'') =
     Inr \<lparr>returned = (None, Some (S ''Robert Frost'')), banners = [],
          requests = [\<lparr>api_key = S ''sk-test'', model = S ''gpt-5.1'',
                     system_content =
                       S ''You are Robert Frost. Write a short poem based on the user's description of their day.'',
                     user_content = S ''a fine day''\<rparr>]\<rparr>"
  by (simp add: get_poem_example silent_def)

lemma get_poem_answering:
  "get_poem (example_world answering) (S ''a fine day'') =
     Inr \<lparr>returned = (Some (S ''Rain taps soft''), Some (S ''Robert Frost'')), banners = [],
          requests = [\<lparr>api_key = S ''sk-test'', model = S ''gpt-5.1'',
                     system_content =
                       S ''You are Robert Frost. Write a short poem based on the user's description of their day.'',
                     user_content = S ''a fine day''\<rparr>]\<rparr>"
  by (simp add: get_poem_example answering_def)

text \<open>When the client cannot be built, the exception leaves the generator.\<close>

lemma get_poem_broken_client:
  "get_poem broken_client_world (S ''a fine day'') =
     Inl (Exn ''OpenAIError'' (S ''client could not be built''))"
proof -
  have env: "getenv broken_client_world ''OPENAI_API_KEY'' = Some (S ''sk-test'')"
    by (simp add: broken_client_world_def)
  have nonempty: "S ''sk-test'' \<noteq> []"
    by (simp add: S_def)
  have "new_client broken_client_world (S ''sk-test'') =
          Some (Exn ''OpenAIError'' (S ''client could not be built''))"
    by (simp add: broken_client_world_def)
  from get_poem_no_client [OF config_value_from_env [OF env nonempty] nonempty this]
  show ?thesis .
qed

text \<open>
  The key in the store only and a template in both sources: reading the store for the
  key puts the template of the store into the environment, and that one is sent.
\<close>

lemma get_poem_store_world:
  "get_poem store_world (S ''a fine day'') =
     Inr \<lparr>returned = (Some (S ''Rain taps soft''), Some (S ''Robert Frost'')), banners = [],
          requests = [\<lparr>api_key = S ''sk-store'', model = S ''gpt-5.1'',
                     system_content = S ''Store Robert Frost'',
                     user_content = S ''a fine day''\<rparr>]\<rparr>"
proof -
  have env: "getenv store_world ''OPENAI_API_KEY'' = None \<or>
             getenv store_world ''OPENAI_API_KEY'' = Some []"
    by (simp add: store_world_def)
  have store: "secrets store_world =
      Some [''OPENAI_API_KEY'' \<mapsto> S ''sk-store'', ''POEM_SYSTEM_PROMPT'' \<mapsto> S ''Store {poet}'']"
    by (simp add: store_world_def)
  have key: "config_value store_world ''OPENAI_API_KEY'' = Some (S ''sk-store'')"
    by (rule config_value_from_store [OF env store]) simp
  have nonempty: "S ''sk-store'' \<noteq> []"
    by (simp add: S_def)
  have client: "new_client store_world (S ''sk-store'') = None"
    by (simp add: store_world_def)
  have "getenv (after_lookup store_world ''OPENAI_API_KEY'') ''POEM_SYSTEM_PROMPT'' =
          Some (S ''Store {poet}'')"
    by (simp add: getenv_after_lookup_store [OF env store])
  moreover have "S ''Store {poet}'' \<noteq> []"
    by (simp add: S_def)
  ultimately have tmpl: "config_value (after_lookup store_world ''OPENAI_API_KEY'')
      ''POEM_SYSTEM_PROMPT'' = Some (S ''Store {poet}'')"
    by (rule config_value_from_env)
  have t: "S ''Store {poet}'' =
      (case config_value (after_lookup store_world ''OPENAI_API_KEY'') ''POEM_SYSTEM_PROMPT'' of
         None \<Rightarrow> default_template
       | Some c \<Rightarrow> if c = [] then default_template else c)"
    by (simp add: tmpl S_def)
  have poet: "poets ! (draw store_world mod 11) = S ''Robert Frost''"
    by (simp add: store_world_def poets_def)
  have instr: "str_format (format_other store_world) (S ''Store {poet}'')
                 (poets ! (draw store_world mod 11)) = Inr (S ''Store Robert Frost'')"
    unfolding poet by (simp add: S_def)
  have provider: "create store_world = answering"
    by (simp add: store_world_def)
  show ?thesis
    using get_poem_with_key [OF key nonempty client t instr refl, of "S ''a fine day''"]
    by (simp add: provider poet answering_def)
qed

text \<open>
  The password in the store only and a key in both sources: the gate has to read the
  store, which overwrites the key of the environment, and the generator sends the key
  of the store.
\<close>

lemma gate_read_overwrites_key:
  "\<exists>r g req. main gate_store_world [''password_correct'' \<mapsto> Bool True] (S ''a fine day'') True = Inr r
      \<and> generated r = Some (Inr g) \<and> requests g = [req] \<and> api_key req = S ''sk-store''"
proof -
  let ?w = "gate_store_world"
  have env: "getenv ?w ''APP_PASSWORD'' = None \<or> getenv ?w ''APP_PASSWORD'' = Some []"
    by (simp add: gate_store_world_def)
  have store: "secrets ?w =
      Some [''APP_PASSWORD'' \<mapsto> S ''secret'', ''OPENAI_API_KEY'' \<mapsto> S ''sk-store'']"
    by (simp add: gate_store_world_def)
  have pw: "config_value ?w ''APP_PASSWORD'' = Some (S ''secret'')"
    by (rule config_value_from_store [OF env store]) simp
  have "S ''secret'' \<noteq> []"
    by (simp add: S_def)
  from check_password_correct [where ss = "[''password_correct'' \<mapsto> Bool True]", OF pw this]
  have gate: "check_password ?w [''password_correct'' \<mapsto> Bool True] =
     \<lparr>granted = True, shown = [],
      left = \<lparr>session_state = [''password_correct'' \<mapsto> Bool True], on_change = None\<rparr>,
      environment = getenv (after_lookup ?w ''APP_PASSWORD'')\<rparr>"
    by simp
  define w1 where "w1 = ?w\<lparr>getenv := getenv (after_lookup ?w ''APP_PASSWORD'')\<rparr>"
  have env1: "getenv w1 ''OPENAI_API_KEY'' = Some (S ''sk-store'')"
    by (simp add: w1_def getenv_after_lookup_store [OF env store])
  have nonempty: "S ''sk-store'' \<noteq> []"
    by (simp add: S_def)
  note key = config_value_from_env [OF env1 nonempty]
  have client: "\<forall>key. config_value w1 ''OPENAI_API_KEY'' = Some key \<longrightarrow> new_client w1 key = None"
    by (simp add: w1_def gate_store_world_def)
  from get_poem_returns [OF client] obtain g where g: "get_poem w1 (S ''a fine day'') = Inr g"
    by blast
  have sent: "\<exists>req. requests g = [req] \<and> api_key req = S ''sk-store''"
    using g key nonempty
    by (auto simp: get_poem_def select_poet_poets Let_def w1_def gate_store_world_def
          answering_def str_format_default
          config_value_def after_lookup_def
          split: option.splits sum.splits list.splits if_splits)
  have day: "strip (S ''a fine day'') \<noteq> []"
    by (simp add: strip_def S_def isspace_def)
  have "main ?w [''password_correct'' \<mapsto> Bool True] (S ''a fine day'') True =
      Inr \<lparr>page =
             [Page_config, Css, Title (S ''How was your day today?''), Day_form,
              Spinner (S ''Writing...'')] @ banners g @
             (case returned g of
                (Some poem, Some poet) \<Rightarrow>
                  if poem \<noteq> [] \<and> poet \<noteq> [] then typewriter poem poet else []
              | _ \<Rightarrow> []),
            after = \<lparr>session_state = [''password_correct'' \<mapsto> Bool True], on_change = None\<rparr>,
            generated = Some (Inr g)\<rparr>"
    using g day by (simp add: main_def gate w1_def Let_def)
  with sent show ?thesis by auto
qed

text \<open>Each name has its own index, and the poet returned is the one selected.\<close>

lemma one_index_for_each_poet:
  assumes "p \<in> set poets"
  shows "card {i. i < 11 \<and> select_poet i poets = Inr p} = 1"
proof -
  from distinct_Ex1 [OF distinct_poets assms]
  obtain i where i: "i < 11" "poets ! i = p"
    and only: "\<And>j. j < 11 \<Longrightarrow> poets ! j = p \<Longrightarrow> j = i"
    by (auto simp: length_poets)
  have "{j. j < 11 \<and> select_poet j poets = Inr p} = {i}"
  proof (rule set_eqI)
    fix j
    show "j \<in> {j. j < 11 \<and> select_poet j poets = Inr p} \<longleftrightarrow> j \<in> {i}"
      using i only [of j] by (auto simp: select_poet_poets)
  qed
  then show ?thesis by simp
qed

lemma returned_poet:
  assumes "get_poem w day = Inr g" and "snd (returned g) = Some p"
  shows "p = poets ! (draw w mod 11)"
  using get_poem_shape [OF assms(1)] assms(2) by auto

text \<open>A secret store that fails reads like a store without the entry.\<close>

lemma config_value_store_fails:
  assumes "store name = None"
  shows "config_value (w\<lparr>secrets := None\<rparr>) name = config_value (w\<lparr>secrets := Some store\<rparr>) name"
  using assms by (simp add: config_value_def Let_def)

lemma get_poem_store_fails:
  "get_poem (w\<lparr>secrets := None\<rparr>) day = get_poem (w\<lparr>secrets := Some Map.empty\<rparr>) day"
proof -
  have key: "config_value (w\<lparr>secrets := None\<rparr>) = config_value (w\<lparr>secrets := Some Map.empty\<rparr>)"
    by (rule ext) (simp add: config_value_def Let_def)
  have tmpl: "config_value (after_lookup (w\<lparr>secrets := None\<rparr>) name) =
              config_value (after_lookup (w\<lparr>secrets := Some Map.empty\<rparr>) name)" for name
    by (rule ext) (simp add: config_value_def after_lookup_def Let_def)
  show ?thesis
    by (simp add: get_poem_def key tmpl Let_def split: option.splits sum.splits list.splits)
qed

section \<open>The claims\<close>

text \<open>
  C1. While the password input is on the page, entering the configured password sets
  \<^verbatim>\<open>password_correct\<close> to true, removes the entered text from the session, and the run
  that follows shows the form and no password input. From then on the check returns
  true in every run whose configuration has a password: no callback is left that could
  reset the flag, so a later sequence of events is possible exactly when it enters no
  password, and it leaves the session as it is.
\<close>

theorem correct_password_unlocks_for_good:
  assumes "config_value w ''APP_PASSWORD'' = Some cp" and "cp \<noteq> []"
    and "on_change a = Some cp"
    and "\<forall>(w', e) \<in> set es. \<exists>p. config_value w' ''APP_PASSWORD'' = Some p \<and> p \<noteq> []"
  shows "\<exists>r. step w (Enter_password cp) a = Some (Inr r)
           \<and> session_state (after r) ''password_correct'' = Some (Bool True)
           \<and> session_state (after r) ''password'' = None
           \<and> on_change (after r) = None
           \<and> Day_form \<in> set (page r) \<and> Password_input \<notin> set (page r)
           \<and> (\<forall>(w', e) \<in> set es. granted (check_password w' (session_state (after r))))
           \<and> run (after r) es =
                 (if \<exists>(w', e) \<in> set es. \<exists>s. e = Enter_password s then None
                  else Some (Inr (after r)))"
proof -
  define ss where
    "ss = (((session_state a)(''password'' \<mapsto> Str cp))(''password_correct'' \<mapsto> Bool True))
            (''password'' := None)"
  have entered: "password_entered cp ((session_state a)(''password'' \<mapsto> Str cp)) = Inr ss"
    by (simp add: password_entered_def ss_def)
  have flag: "ss ''password_correct'' = Some (Bool True)" and gone: "ss ''password'' = None"
    by (simp_all add: ss_def)
  obtain r where r: "main w ss [] False = Inr r"
      "after r = \<lparr>session_state = ss, on_change = None\<rparr>"
      "Day_form \<in> set (page r)" "Password_input \<notin> set (page r)"
    using main_correct [where ss = ss, OF assms(1,2) flag] by blast
  have stepped: "step w (Enter_password cp) a = Some (Inr r)"
    using assms(3) entered r(1) by simp
  have later: "\<forall>(w', e) \<in> set es. granted (check_password w' ss)"
    using assms(4) check_password_correct [where ss = ss, OF _ _ flag] by fastforce
  show ?thesis
    using stepped r flag gone later run_no_input [where ss = ss, OF assms(4) flag]
    by simp
qed

theorem correct_password_unlocks_for_good_witness:
  "config_value (example_world answering) ''APP_PASSWORD'' = Some (S ''secret'')
   \<and> S ''secret'' \<noteq> []
   \<and> on_change first_page = Some (S ''secret'')
   \<and> (\<exists>r. step (example_world answering) (Enter_password (S ''secret'')) first_page = Some (Inr r)
           \<and> session_state (after r) ''password_correct'' = Some (Bool True)
           \<and> session_state (after r) ''password'' = None
           \<and> on_change (after r) = None
           \<and> Day_form \<in> set (page r)
           \<and> run (after r)
                 [(example_world answering, Rerun (S ''a fine day'') True),
                  (example_world unreachable, Rerun [] False)] = Some (Inr (after r)))"
proof -
  have h1: "config_value (example_world answering) ''APP_PASSWORD'' = Some (S ''secret'')"
    by (simp add: config_value_def example_world_def S_def)
  have h2: "S ''secret'' \<noteq> []"
    by (simp add: S_def)
  have h3: "on_change first_page = Some (S ''secret'')"
    by (simp add: first_page_def)
  have h4: "\<forall>(w', e) \<in> set [(example_world answering, Rerun (S ''a fine day'') True),
                  (example_world unreachable, Rerun [] False)].
              \<exists>p. config_value w' ''APP_PASSWORD'' = Some p \<and> p \<noteq> []"
    by (simp add: config_value_def example_world_def S_def)
  show ?thesis
    using h1 h2 h3 correct_password_unlocks_for_good [OF h1 h2 h3 h4]
    by auto
qed

text \<open>
  C2. With the password \<^verbatim>\<open>secret\<close> configured and the password input on the page,
  entering \<^verbatim>\<open>wrong\<close> leaves the gate closed with the error shown and the flag false, and
  the session still holds \<^verbatim>\<open>wrong\<close> under the key \<^verbatim>\<open>password\<close>: the branch of
  \<^verbatim>\<open>password_entered\<close> for a wrong text does not delete it.
\<close>

theorem wrong_password_stays_in_session:
  "step (example_world answering) (Enter_password (S ''wrong'')) first_page =
     Some (Inr \<lparr>page = [Page_config, Password_input, Error (128533 # S '' Password incorrect'')],
               after = \<lparr>session_state =
                          [''password'' \<mapsto> Str (S ''wrong''), ''password_correct'' \<mapsto> Bool False],
                        on_change = Some (S ''secret'')\<rparr>,
               generated = None\<rparr>)"
proof -
  have cfg: "config_value (example_world answering) ''APP_PASSWORD'' = Some (S ''secret'')"
    by (simp add: config_value_def example_world_def S_def)
  have "S ''secret'' \<noteq> []" and "S ''wrong'' \<noteq> S ''secret''"
    by (simp_all add: S_def)
  from wrong_password_keeps_the_gate_locked [OF cfg this(1) _ this(2), of first_page]
  show ?thesis by (simp add: first_page_def)
qed

text \<open>
  C3. When \<^verbatim>\<open>APP_PASSWORD\<close> is unset or empty in the environment, and the secret store
  fails, lacks it or holds the empty string, then for every session state the check
  returns false and shows the warning and no password input; the page stops after the
  warning and the generator is not called. The same holds for the run that follows any
  event, whatever was entered.
\<close>

theorem gate_misconfigured_without_password:
  assumes "getenv w ''APP_PASSWORD'' = None \<or> getenv w ''APP_PASSWORD'' = Some []"
    and "secrets w = None \<or>
         (\<exists>store. secrets w = Some store \<and>
            (store ''APP_PASSWORD'' = None \<or> store ''APP_PASSWORD'' = Some []))"
  shows "granted (check_password w ss) = False
       \<and> shown (check_password w ss) =
           [Warning (S ''App is password protected but APP_PASSWORD is not set.'')]
       \<and> on_change (left (check_password w ss)) = None
       \<and> (\<exists>r. main w ss day_input submitted = Inr r
              \<and> page r = [Page_config,
                           Warning (S ''App is password protected but APP_PASSWORD is not set.'')]
              \<and> generated r = None \<and> on_change (after r) = None)
       \<and> (step w e a = None \<or>
          (\<exists>r. step w e a = Some (Inr r)
              \<and> page r = [Page_config,
                           Warning (S ''App is password protected but APP_PASSWORD is not set.'')]
              \<and> generated r = None \<and> on_change (after r) = None))"
proof -
  note unset = password_unset [OF assms]
  have gate: "check_password w ss = misconfigured (getenv (after_lookup w ''APP_PASSWORD'')) ss"
    by (rule check_password_unset [OF unset])
  have stepped: "step w e a = None \<or>
          (\<exists>r. step w e a = Some (Inr r)
              \<and> page r = [Page_config,
                           Warning (S ''App is password protected but APP_PASSWORD is not set.'')]
              \<and> generated r = None \<and> on_change (after r) = None)"
  proof (cases e)
    case (Rerun d sub)
    then show ?thesis by (simp add: main_unset [OF unset])
  next
    case (Enter_password s)
    show ?thesis
    proof (cases "on_change a")
      case None
      with Enter_password show ?thesis by simp
    next
      case (Some cp)
      obtain ss' where "password_entered cp ((session_state a)(''password'' \<mapsto> Str s)) = Inr ss'"
        using password_entered_returns by blast
      with Enter_password Some show ?thesis by (simp add: main_unset [OF unset])
    qed
  qed
  show ?thesis
    using stepped by (simp add: gate misconfigured_def main_unset [OF unset])
qed

theorem gate_misconfigured_without_password_witness:
  "(getenv bare_world ''APP_PASSWORD'' = None \<or> getenv bare_world ''APP_PASSWORD'' = Some [])
   \<and> (secrets bare_world = None \<or>
         (\<exists>store. secrets bare_world = Some store \<and>
            (store ''APP_PASSWORD'' = None \<or> store ''APP_PASSWORD'' = Some [])))
   \<and> granted (check_password bare_world [''password_correct'' \<mapsto> Bool True]) = False
   \<and> (\<exists>r. main bare_world [''password_correct'' \<mapsto> Bool True] (S ''a fine day'') True = Inr r
          \<and> page r = [Page_config,
                       Warning (S ''App is password protected but APP_PASSWORD is not set.'')]
          \<and> generated r = None)"
proof -
  have h1: "getenv bare_world ''APP_PASSWORD'' = None \<or> getenv bare_world ''APP_PASSWORD'' = Some []"
    by (simp add: bare_world_def)
  have h2: "secrets bare_world = None \<or>
         (\<exists>store. secrets bare_world = Some store \<and>
            (store ''APP_PASSWORD'' = None \<or> store ''APP_PASSWORD'' = Some []))"
    by (simp add: bare_world_def)
  show ?thesis
    using h1 h2 gate_misconfigured_without_password [OF h1 h2,
        of "[''password_correct'' \<mapsto> Bool True]" "S ''a fine day''" True]
    by auto
qed

text \<open>
  C4. A run calls \<^verbatim>\<open>get_poem\<close> only when \<^verbatim>\<open>check_password\<close> returned true, which needs a
  true \<^verbatim>\<open>password_correct\<close> in the session; this holds for a run of \<^verbatim>\<open>main\<close> and for the
  run that follows any event. When the check fails the run ends after what the gate
  showed: no form is rendered and \<^verbatim>\<open>get_poem\<close> is not called.
\<close>

theorem generator_runs_only_behind_the_gate:
  "(main w ss day_input submitted = Inr r \<and> generated r \<noteq> None \<longrightarrow>
      granted (check_password w ss) \<and> (\<exists>v. ss ''password_correct'' = Some v \<and> truthy v))
   \<and> (step w e a = Some (Inr r') \<and> generated r' \<noteq> None \<longrightarrow>
      granted (check_password w (session_state a))
      \<and> (\<exists>v. session_state a ''password_correct'' = Some v \<and> truthy v))
   \<and> (\<not> granted (check_password w ss) \<longrightarrow>
      main w ss day_input submitted =
        Inr \<lparr>page = Page_config # shown (check_password w ss),
             after = left (check_password w ss), generated = None\<rparr>
      \<and> Day_form \<notin> set (Page_config # shown (check_password w ss)))"
proof -
  have run: "granted (check_password w ss) \<and> (\<exists>v. ss ''password_correct'' = Some v \<and> truthy v)"
    if "main w ss day_input submitted = Inr r" and "generated r \<noteq> None"
    using main_generated [OF that] check_password_granted [of w ss] by blast
  have stepped: "granted (check_password w (session_state a))
      \<and> (\<exists>v. session_state a ''password_correct'' = Some v \<and> truthy v)"
    if s: "step w e a = Some (Inr r')" and g: "generated r' \<noteq> None"
  proof (cases e)
    case (Rerun d sub)
    with s have "main w (session_state a) d sub = Inr r'" by simp
    from main_generated [OF this g] check_password_granted [of w "session_state a"]
    show ?thesis by blast
  next
    case (Enter_password p)
    with s obtain ss' where "main w ss' [] False = Inr r'"
      by (auto split: option.splits sum.splits)
    from main_generated [OF this g] show ?thesis by simp
  qed
  have stop: "main w ss day_input submitted =
        Inr \<lparr>page = Page_config # shown (check_password w ss),
             after = left (check_password w ss), generated = None\<rparr>
      \<and> Day_form \<notin> set (Page_config # shown (check_password w ss))"
    if "\<not> granted (check_password w ss)"
    using main_refused [OF that] check_password_refused [OF that] by simp
  from run stepped stop show ?thesis by blast
qed

theorem generator_runs_only_behind_the_gate_witness:
  "(\<exists>r. main (example_world answering) [''password_correct'' \<mapsto> Bool True] (S ''a fine day'') True = Inr r
        \<and> generated r \<noteq> None
        \<and> granted (check_password (example_world answering) [''password_correct'' \<mapsto> Bool True]))
   \<and> granted (check_password (example_world answering) [''password_correct'' \<mapsto> Bool False]) = False
   \<and> main (example_world answering) [''password_correct'' \<mapsto> Bool False] (S ''a fine day'') True =
        Inr \<lparr>page = Page_config # shown (check_password (example_world answering) [''password_correct'' \<mapsto> Bool False]),
             after = left (check_password (example_world answering) [''password_correct'' \<mapsto> Bool False]),
             generated = None\<rparr>"
proof -
  have cfg: "config_value (example_world answering) ''APP_PASSWORD'' = Some (S ''secret'')"
    by (simp add: config_value_def example_world_def S_def)
  have yes: "granted (check_password (example_world answering) [''password_correct'' \<mapsto> Bool True])"
    by (simp add: check_password_def cfg Let_def S_def)
  have no: "\<not> granted (check_password (example_world answering) [''password_correct'' \<mapsto> Bool False])"
    by (simp add: check_password_def cfg misconfigured_def Let_def S_def)
  have day: "strip (S ''a fine day'') \<noteq> []"
    by (simp add: strip_def S_def isspace_def)
  have r: "\<exists>r. main (example_world answering) [''password_correct'' \<mapsto> Bool True] (S ''a fine day'') True = Inr r
        \<and> generated r \<noteq> None"
    using yes day by (auto simp: main_def Let_def split: sum.splits)
  from r obtain r where r': "main (example_world answering) [''password_correct'' \<mapsto> Bool True] (S ''a fine day'') True = Inr r"
        "generated r \<noteq> None" by blast
  show ?thesis
    using generator_runs_only_behind_the_gate
      [of "example_world answering" "[''password_correct'' \<mapsto> Bool True]" "S ''a fine day''" True r]
      generator_runs_only_behind_the_gate
      [of "example_world answering" "[''password_correct'' \<mapsto> Bool False]" "S ''a fine day''" True]
      r' no
    by blast
qed

text \<open>
  C5. When the form is submitted with a text that \<^verbatim>\<open>strip()\<close> leaves empty, a run that
  passed the gate calls no generator and ends with the information message, with no
  error banner. Whenever a run calls the generator, the form was submitted and the
  text is not empty after \<^verbatim>\<open>strip()\<close>. The empty string and three spaces are such texts.
\<close>

theorem blank_day_is_not_sent:
  "(strip day_input = [] \<and> granted (check_password w ss) \<longrightarrow>
      (\<exists>r. main w ss day_input True = Inr r
          \<and> page r = [Page_config, Css, Title (S ''How was your day today?''), Day_form,
                       Info (S ''Please share a few words first.'')]
          \<and> generated r = None))
   \<and> (main w ss day_input submitted = Inr r \<and> generated r \<noteq> None \<longrightarrow>
        submitted \<and> strip day_input \<noteq> [])
   \<and> strip [] = [] \<and> strip (S ''   '') = []"
proof -
  have blank: "\<exists>r. main w ss day_input True = Inr r
          \<and> page r = [Page_config, Css, Title (S ''How was your day today?''), Day_form,
                       Info (S ''Please share a few words first.'')]
          \<and> generated r = None"
    if "strip day_input = []" and "granted (check_password w ss)"
    using that(1) check_password_granted [OF that(2)] by (simp add: main_def)
  have sent: "submitted \<and> strip day_input \<noteq> []"
    if "main w ss day_input submitted = Inr r" and "generated r \<noteq> None"
    using main_generated [OF that] by simp
  have ex: "strip [] = [] \<and> strip (S ''   '') = []"
    by (simp add: strip_def S_def isspace_def)
  from blank sent ex show ?thesis by blast
qed

theorem blank_day_is_not_sent_witness:
  "strip (9 # S ''  '' @ [160, 10]) = []
   \<and> granted (check_password (example_world answering) [''password_correct'' \<mapsto> Bool True])
   \<and> (\<exists>r. main (example_world answering) [''password_correct'' \<mapsto> Bool True]
             (9 # S ''  '' @ [160, 10]) True = Inr r
          \<and> page r = [Page_config, Css, Title (S ''How was your day today?''), Day_form,
                       Info (S ''Please share a few words first.'')]
          \<and> generated r = None)"
proof -
  have cfg: "config_value (example_world answering) ''APP_PASSWORD'' = Some (S ''secret'')"
    by (simp add: config_value_def example_world_def S_def)
  have yes: "granted (check_password (example_world answering) [''password_correct'' \<mapsto> Bool True])"
    by (simp add: check_password_def cfg Let_def S_def)
  have blank: "strip (9 # S ''  '' @ [160, 10]) = []"
    by (simp add: strip_def S_def isspace_def)
  show ?thesis
    using blank yes blank_day_is_not_sent
      [of "9 # S ''  '' @ [160, 10]" "example_world answering" "[''password_correct'' \<mapsto> Bool True]"]
    by blast
qed




text \<open>
  C7, as the claim states it, fails. When the provider raises, the pair that
  \<^verbatim>\<open>get_poem\<close> returns is \<^verbatim>\<open>(None, None)\<close> and holds no description: the description is
  in the error banner. And the description is the text of the exception, which can be
  empty: for an exception without a message the banner holds the prefix alone.
\<close>

theorem failure_pair_carries_no_description:
  "get_poem (example_world unreachable) (S ''a fine day'') =
     Inr \<lparr>returned = (None, None),
          banners = [Error (S ''Error generating poem: Connection error.'')],
          requests = [\<lparr>api_key = S ''sk-test'', model = S ''gpt-5.1'',
                     system_content =
                       S ''You are Robert Frost. Write a short poem based on the user's description of their day.'',
                     user_content = S ''a fine day''\<rparr>]\<rparr>
   \<and> unreachable \<lparr>api_key = S ''sk-test'', model = S ''gpt-5.1'',
                     system_content =
                       S ''You are Robert Frost. Write a short poem based on the user's description of their day.'',
                     user_content = S ''a fine day''\<rparr> =
       Inl (Exn ''APIConnectionError'' (S ''Connection error.''))
   \<and> get_poem (example_world mute) (S ''a fine day'') =
     Inr \<lparr>returned = (None, None),
          banners = [Error (S ''Error generating poem: '')],
          requests = [\<lparr>api_key = S ''sk-test'', model = S ''gpt-5.1'',
                     system_content =
                       S ''You are Robert Frost. Write a short poem based on the user's description of their day.'',
                     user_content = S ''a fine day''\<rparr>]\<rparr>
   \<and> mute \<lparr>api_key = S ''sk-test'', model = S ''gpt-5.1'',
                     system_content =
                       S ''You are Robert Frost. Write a short poem based on the user's description of their day.'',
                     user_content = S ''a fine day''\<rparr> =
       Inl (Exn ''TimeoutError'' [])"
  by (simp add: get_poem_unreachable get_poem_mute) (simp add: unreachable_def mute_def)

text \<open>
  C7, amended. When the request was sent and the provider raised, or answered with no
  choice at all, \<^verbatim>\<open>get_poem\<close> returns \<^verbatim>\<open>(None, None)\<close> and shows one error banner:
  \<^verbatim>\<open>Error generating poem: \<close> followed by the text of the exception. \<^verbatim>\<open>get_poem\<close> returns
  whenever the client was built, whatever the provider does then; the only exception
  that leaves it is one raised by the constructor of the client on line 33, before the
  \<^verbatim>\<open>try\<close> and before any request.
\<close>

theorem provider_failure_is_caught_and_shown:
  "(get_poem w day = Inr g \<and> requests g = [req] \<and> create w req = Inl e \<longrightarrow>
        returned g = (None, None)
        \<and> banners g = [Error (S ''Error generating poem: '' @ str_of e)])
   \<and> (get_poem w day = Inr g \<and> requests g = [req] \<and> create w req = Inr [] \<longrightarrow>
        returned g = (None, None)
        \<and> banners g = [Error (S ''Error generating poem: list index out of range'')])
   \<and> (config_value w ''OPENAI_API_KEY'' = Some key \<and> new_client w key = None \<longrightarrow>
        (\<exists>g. get_poem w day = Inr g))
   \<and> (get_poem w day = Inl x \<longrightarrow>
        (\<exists>key. config_value w ''OPENAI_API_KEY'' = Some key \<and> key \<noteq> []
            \<and> new_client w key = Some x))"
proof -
  have raised: "returned g = (None, None)
        \<and> banners g = [Error (S ''Error generating poem: '' @ str_of e)]"
    if "get_poem w day = Inr g \<and> requests g = [req] \<and> create w req = Inl e"
    using that get_poem_sent [of w day g req] by (simp add: failed_def)
  have empty: "returned g = (None, None)
        \<and> banners g = [Error (S ''Error generating poem: list index out of range'')]"
    if "get_poem w day = Inr g \<and> requests g = [req] \<and> create w req = Inr []"
    using that get_poem_sent [of w day g req] by (simp add: failed_def S_def)
  have returns: "\<exists>g. get_poem w day = Inr g"
    if "config_value w ''OPENAI_API_KEY'' = Some key \<and> new_client w key = None"
  proof (rule get_poem_returns)
    from that show "\<forall>k. config_value w ''OPENAI_API_KEY'' = Some k \<longrightarrow> new_client w k = None"
      by auto
  qed
  have escapes: "\<exists>key. config_value w ''OPENAI_API_KEY'' = Some key \<and> key \<noteq> []
            \<and> new_client w key = Some x"
    if "get_poem w day = Inl x"
    using that by (rule get_poem_raises)
  from raised empty returns escapes show ?thesis
    by blast
qed

theorem provider_failure_is_caught_and_shown_witness:
  "get_poem (example_world unreachable) (S ''a fine day'') =
     Inr \<lparr>returned = (None, None),
          banners = [Error (S ''Error generating poem: Connection error.'')],
          requests = [\<lparr>api_key = S ''sk-test'', model = S ''gpt-5.1'',
                     system_content =
                       S ''You are Robert Frost. Write a short poem based on the user's description of their day.'',
                     user_content = S ''a fine day''\<rparr>]\<rparr>
   \<and> create (example_world unreachable)
         \<lparr>api_key = S ''sk-test'', model = S ''gpt-5.1'',
          system_content =
            S ''You are Robert Frost. Write a short poem based on the user's description of their day.'',
          user_content = S ''a fine day''\<rparr> =
       Inl (Exn ''APIConnectionError'' (S ''Connection error.''))
   \<and> S ''Error generating poem: '' @ str_of (Exn ''APIConnectionError'' (S ''Connection error.'')) =
       S ''Error generating poem: Connection error.''
   \<and> config_value (example_world unreachable) ''OPENAI_API_KEY'' = Some (S ''sk-test'')
   \<and> new_client (example_world unreachable) (S ''sk-test'') = None
   \<and> (\<exists>g. get_poem (example_world unreachable) (S ''rain'') = Inr g)
   \<and> get_poem broken_client_world (S ''a fine day'') =
       Inl (Exn ''OpenAIError'' (S ''client could not be built''))
   \<and> (\<exists>key. config_value broken_client_world ''OPENAI_API_KEY'' = Some key \<and> key \<noteq> []
          \<and> new_client broken_client_world key =
              Some (Exn ''OpenAIError'' (S ''client could not be built'')))"
proof -
  have c: "create (example_world unreachable)
         \<lparr>api_key = S ''sk-test'', model = S ''gpt-5.1'',
          system_content =
            S ''You are Robert Frost. Write a short poem based on the user's description of their day.'',
          user_content = S ''a fine day''\<rparr> =
       Inl (Exn ''APIConnectionError'' (S ''Connection error.''))"
    by (simp add: example_world_def unreachable_def)
  have m: "S ''Error generating poem: '' @ str_of (Exn ''APIConnectionError'' (S ''Connection error.'')) =
       S ''Error generating poem: Connection error.''"
    by (simp add: S_def)
  have k: "config_value (example_world unreachable) ''OPENAI_API_KEY'' = Some (S ''sk-test'')"
    by (simp add: config_value_def example_world_def S_def)
  have n: "new_client (example_world unreachable) (S ''sk-test'') = None"
    by (simp add: example_world_def)
  from k n provider_failure_is_caught_and_shown
      [where w = "example_world unreachable" and day = "S ''rain''" and key = "S ''sk-test''"]
  have returns: "\<exists>g. get_poem (example_world unreachable) (S ''rain'') = Inr g"
    by blast
  from get_poem_broken_client provider_failure_is_caught_and_shown
      [where w = broken_client_world and day = "S ''a fine day''"
         and x = "Exn ''OpenAIError'' (S ''client could not be built'')"]
  have raised: "\<exists>key. config_value broken_client_world ''OPENAI_API_KEY'' = Some key \<and> key \<noteq> []
          \<and> new_client broken_client_world key =
              Some (Exn ''OpenAIError'' (S ''client could not be built''))"
    by blast
  from get_poem_unreachable c m k n returns get_poem_broken_client raised
  show ?thesis by (intro conjI)
qed

text \<open>
  C8. The environment is \<^verbatim>\<open>os.environ\<close> as \<^verbatim>\<open>get_poem\<close> finds it. A non-empty
  \<^verbatim>\<open>OPENAI_API_KEY\<close> there is the key, whatever the secret store holds: the client is
  built with it and every request sent carries it. When the environment has none, the
  non-empty entry of the secret store is the key in the same way. A store that fails
  gives the same key as a store without the entry, and the whole of \<^verbatim>\<open>get_poem\<close> behaves
  under a failing store as under an empty one. When neither source has a non-empty key,
  \<^verbatim>\<open>get_poem\<close> returns \<^verbatim>\<open>(None, None)\<close>, shows the error banner, builds no client and
  sends no request. (What \<^verbatim>\<open>get_poem\<close> finds in the environment is what the run left
  there: see \<open>gate_read_overwrites_key\<close>.)
\<close>

theorem api_key_from_environment_then_secrets:
  "(getenv w ''OPENAI_API_KEY'' = Some k \<and> k \<noteq> [] \<longrightarrow>
      (get_poem w day = Inr g \<and> requests g = [req] \<longrightarrow> api_key req = k)
      \<and> (new_client w k = Some x \<longrightarrow> get_poem w day = Inl x)
      \<and> (new_client w k = None \<longrightarrow> (\<exists>g. get_poem w day = Inr g \<and> g \<noteq> no_key)))
   \<and> ((getenv w ''OPENAI_API_KEY'' = None \<or> getenv w ''OPENAI_API_KEY'' = Some [])
        \<and> secrets w = Some store \<and> store ''OPENAI_API_KEY'' = Some k \<and> k \<noteq> [] \<longrightarrow>
      (get_poem w day = Inr g \<and> requests g = [req] \<longrightarrow> api_key req = k)
      \<and> (new_client w k = Some x \<longrightarrow> get_poem w day = Inl x)
      \<and> (new_client w k = None \<longrightarrow> (\<exists>g. get_poem w day = Inr g \<and> g \<noteq> no_key)))
   \<and> (store ''OPENAI_API_KEY'' = None \<longrightarrow>
      config_value (w\<lparr>secrets := None\<rparr>) ''OPENAI_API_KEY'' =
      config_value (w\<lparr>secrets := Some store\<rparr>) ''OPENAI_API_KEY'')
   \<and> get_poem (w\<lparr>secrets := None\<rparr>) day = get_poem (w\<lparr>secrets := Some Map.empty\<rparr>) day
   \<and> ((getenv w ''OPENAI_API_KEY'' = None \<or> getenv w ''OPENAI_API_KEY'' = Some [])
        \<and> (secrets w = None \<or>
           (\<exists>store. secrets w = Some store \<and>
              (store ''OPENAI_API_KEY'' = None \<or> store ''OPENAI_API_KEY'' = Some []))) \<longrightarrow>
      get_poem w day =
        Inr \<lparr>returned = (None, None),
             banners = [Error (S ''OpenAI API Key not found. Please set it in a .env file or Streamlit secrets.'')],
             requests = []\<rparr>)"
proof -
  have used: "(get_poem w day = Inr g \<and> requests g = [req] \<longrightarrow> api_key req = k)
      \<and> (new_client w k = Some x \<longrightarrow> get_poem w day = Inl x)
      \<and> (new_client w k = None \<longrightarrow> (\<exists>g. get_poem w day = Inr g \<and> g \<noteq> no_key))"
    if key: "config_value w ''OPENAI_API_KEY'' = Some k" and n: "k \<noteq> []"
  proof (intro conjI impI)
    assume "get_poem w day = Inr g \<and> requests g = [req]"
    with get_poem_sent [of w day g req] key show "api_key req = k"
      by simp
  next
    assume "new_client w k = Some x"
    with key n show "get_poem w day = Inl x"
      by (rule get_poem_no_client)
  next
    assume c: "new_client w k = None"
    with key have "\<forall>key. config_value w ''OPENAI_API_KEY'' = Some key \<longrightarrow> new_client w key = None"
      by simp
    from get_poem_returns [OF this] obtain g' where g': "get_poem w day = Inr g'"
      by blast
    have "g' \<noteq> no_key"
    proof
      assume "g' = no_key"
      with g' key n c show False
        by (auto simp: get_poem_def select_poet_poets Let_def no_key_def failed_def S_def
                 split: option.splits sum.splits list.splits if_splits)
    qed
    with g' show "\<exists>g. get_poem w day = Inr g \<and> g \<noteq> no_key"
      by blast
  qed
  have env: "config_value w ''OPENAI_API_KEY'' = Some k"
    if "getenv w ''OPENAI_API_KEY'' = Some k" and "k \<noteq> []"
    using that by (rule config_value_from_env)
  have sec: "config_value w ''OPENAI_API_KEY'' = Some k"
    if "getenv w ''OPENAI_API_KEY'' = None \<or> getenv w ''OPENAI_API_KEY'' = Some []"
      and "secrets w = Some store" and "store ''OPENAI_API_KEY'' = Some k"
    using that by (rule config_value_from_store)
  have none: "get_poem w day = Inr no_key"
    if "getenv w ''OPENAI_API_KEY'' = None \<or> getenv w ''OPENAI_API_KEY'' = Some []"
      and "secrets w = None \<or>
           (\<exists>store. secrets w = Some store \<and>
              (store ''OPENAI_API_KEY'' = None \<or> store ''OPENAI_API_KEY'' = Some []))"
  proof (rule get_poem_no_key)
    show "config_value w ''OPENAI_API_KEY'' = None \<or> config_value w ''OPENAI_API_KEY'' = Some []"
      using that by (auto simp: config_value_def)
  qed
  from used env sec none config_value_store_fails [of store "''OPENAI_API_KEY''" w]
    get_poem_store_fails [of w day]
  show ?thesis unfolding no_key_def by blast
qed

theorem api_key_from_environment_then_secrets_witness:
  "getenv (example_world answering) ''OPENAI_API_KEY'' = Some (S ''sk-test'')
   \<and> (\<exists>g. get_poem (example_world answering) (S ''a fine day'') = Inr g \<and> g \<noteq> no_key)
   \<and> secrets store_world =
        Some [''OPENAI_API_KEY'' \<mapsto> S ''sk-store'', ''POEM_SYSTEM_PROMPT'' \<mapsto> S ''Store {poet}'']
   \<and> (\<exists>g req. get_poem store_world (S ''a fine day'') = Inr g \<and> requests g = [req]
          \<and> api_key req = S ''sk-store'')
   \<and> get_poem broken_client_world (S ''a fine day'') =
        Inl (Exn ''OpenAIError'' (S ''client could not be built''))
   \<and> config_value (bare_world\<lparr>secrets := None\<rparr>) ''OPENAI_API_KEY'' =
      config_value (bare_world\<lparr>secrets := Some Map.empty\<rparr>) ''OPENAI_API_KEY''
   \<and> get_poem bare_world (S ''a fine day'') =
        Inr \<lparr>returned = (None, None),
             banners = [Error (S ''OpenAI API Key not found. Please set it in a .env file or Streamlit secrets.'')],
             requests = []\<rparr>"
proof -
  have e: "getenv (example_world answering) ''OPENAI_API_KEY'' = Some (S ''sk-test'')"
    and e': "S ''sk-test'' \<noteq> []"
    by (simp_all add: example_world_def S_def)
  have e_client: "new_client (example_world answering) (S ''sk-test'') = None"
    by (simp add: example_world_def)
  note t1 = api_key_from_environment_then_secrets
      [where w = "example_world answering" and k = "S ''sk-test''" and day = "S ''a fine day''"]
  from e e' e_client t1 [THEN conjunct1]
  have c1: "\<exists>g. get_poem (example_world answering) (S ''a fine day'') = Inr g \<and> g \<noteq> no_key"
    by blast
  have s_env: "getenv store_world ''OPENAI_API_KEY'' = None \<or>
               getenv store_world ''OPENAI_API_KEY'' = Some []"
    and s_store: "secrets store_world =
      Some [''OPENAI_API_KEY'' \<mapsto> S ''sk-store'', ''POEM_SYSTEM_PROMPT'' \<mapsto> S ''Store {poet}'']"
    by (simp_all add: store_world_def)
  have s_key: "[''OPENAI_API_KEY'' \<mapsto> S ''sk-store'', ''POEM_SYSTEM_PROMPT'' \<mapsto> S ''Store {poet}'']
                 ''OPENAI_API_KEY'' = Some (S ''sk-store'')"
    and s_n: "S ''sk-store'' \<noteq> []"
    by (simp_all add: S_def)
  note t2 = api_key_from_environment_then_secrets
      [where w = store_world and k = "S ''sk-store''" and day = "S ''a fine day''"
         and store = "[''OPENAI_API_KEY'' \<mapsto> S ''sk-store'', ''POEM_SYSTEM_PROMPT'' \<mapsto> S ''Store {poet}'']"
         and g = "\<lparr>returned = (Some (S ''Rain taps soft''), Some (S ''Robert Frost'')), banners = [],
          requests = [\<lparr>api_key = S ''sk-store'', model = S ''gpt-5.1'',
                     system_content = S ''Store Robert Frost'',
                     user_content = S ''a fine day''\<rparr>]\<rparr>"
         and req = "\<lparr>api_key = S ''sk-store'', model = S ''gpt-5.1'',
                     system_content = S ''Store Robert Frost'',
                     user_content = S ''a fine day''\<rparr>"]
  from s_env s_store s_key s_n t2 [THEN conjunct2, THEN conjunct1] get_poem_store_world
  have c2: "\<exists>g req. get_poem store_world (S ''a fine day'') = Inr g \<and> requests g = [req]
          \<and> api_key req = S ''sk-store''"
    by simp
  have b_env: "getenv broken_client_world ''OPENAI_API_KEY'' = Some (S ''sk-test'')"
    and b_client: "new_client broken_client_world (S ''sk-test'') =
        Some (Exn ''OpenAIError'' (S ''client could not be built''))"
    by (simp_all add: broken_client_world_def)
  note t3 = api_key_from_environment_then_secrets
      [where w = broken_client_world and k = "S ''sk-test''" and day = "S ''a fine day''"
         and x = "Exn ''OpenAIError'' (S ''client could not be built'')"]
  from b_env e' b_client t3 [THEN conjunct1]
  have c3: "get_poem broken_client_world (S ''a fine day'') =
        Inl (Exn ''OpenAIError'' (S ''client could not be built''))"
    by blast
  have n: "(getenv bare_world ''OPENAI_API_KEY'' = None \<or> getenv bare_world ''OPENAI_API_KEY'' = Some [])
        \<and> (secrets bare_world = None \<or>
           (\<exists>store. secrets bare_world = Some store \<and>
              (store ''OPENAI_API_KEY'' = None \<or> store ''OPENAI_API_KEY'' = Some [])))"
    by (simp add: bare_world_def)
  have m: "(Map.empty :: string \<rightharpoonup> str) ''OPENAI_API_KEY'' = None"
    by simp
  note t4 = api_key_from_environment_then_secrets
        [where w = bare_world and store = Map.empty and day = "S ''a fine day''"]
  from m t4 [THEN conjunct2, THEN conjunct2, THEN conjunct1]
  have c4: "config_value (bare_world\<lparr>secrets := None\<rparr>) ''OPENAI_API_KEY'' =
      config_value (bare_world\<lparr>secrets := Some Map.empty\<rparr>) ''OPENAI_API_KEY''"
    by (rule rev_mp)
  from n t4 [THEN conjunct2, THEN conjunct2, THEN conjunct2, THEN conjunct2]
  have c5: "get_poem bare_world (S ''a fine day'') =
        Inr \<lparr>returned = (None, None),
             banners = [Error (S ''OpenAI API Key not found. Please set it in a .env file or Streamlit secrets.'')],
             requests = []\<rparr>"
    by (rule rev_mp)
  from e c1 s_store c2 c3 c4 c5 show ?thesis by (intro conjI)
qed

text \<open>
  C9. The list has eleven names, all different. The selected poet is the entry at the
  drawn index, hence a member of the list, and every name of the list is selected by
  exactly one of the eleven indices: under a uniform draw of the index each name has
  one chance in eleven. On the empty list the selection is \<^verbatim>\<open>Unknown Poet\<close>. The poet
  that \<^verbatim>\<open>get_poem\<close> returns is the selected one.
\<close>

theorem persona_is_drawn_from_the_eleven_poets:
  "length poets = 11 \<and> distinct poets
   \<and> select_poet r poets = Inr (poets ! (r mod 11))
   \<and> poets ! (r mod 11) \<in> set poets
   \<and> (\<forall>p \<in> set poets. card {i. i < 11 \<and> select_poet i poets = Inr p} = 1)
   \<and> select_poet r [] = Inr (S ''Unknown Poet'')
   \<and> (get_poem w day = Inr g \<and> snd (returned g) = Some p \<longrightarrow>
        p = poets ! (draw w mod 11) \<and> p \<in> set poets)"
proof (intro conjI ballI impI)
  show "length poets = 11"
    by (rule length_poets)
  show "distinct poets"
    by (rule distinct_poets)
  show "select_poet r poets = Inr (poets ! (r mod 11))"
    by (rule select_poet_poets)
  show "poets ! (r mod 11) \<in> set poets"
    by (simp add: length_poets)
  show "card {i. i < 11 \<and> select_poet i poets = Inr q} = 1" if "q \<in> set poets" for q
    using that by (rule one_index_for_each_poet)
  show "select_poet r [] = Inr (S ''Unknown Poet'')"
    by (simp add: select_poet_def)
  assume run: "get_poem w day = Inr g \<and> snd (returned g) = Some p"
  then show selected: "p = poets ! (draw w mod 11)"
    using returned_poet [of w day g p] by simp
  then show "p \<in> set poets"
    by (simp add: length_poets)
qed

theorem persona_is_drawn_from_the_eleven_poets_witness:
  "select_poet 7 poets = Inr (S ''Robert Frost'')
   \<and> S ''Robert Frost'' \<in> set poets
   \<and> S ''Dr. Seuss'' \<in> set poets
   \<and> card {i. i < 11 \<and> select_poet i poets = Inr (S ''Dr. Seuss'')} = 1
   \<and> select_poet 7 [] = Inr (S ''Unknown Poet'')"
proof -
  note inst = persona_is_drawn_from_the_eleven_poets [where r = 7]
  have frost: "poets ! (7 mod 11) = S ''Robert Frost''"
    by (simp add: poets_def)
  have seuss: "S ''Dr. Seuss'' \<in> set poets"
    by (simp add: poets_def)
  have a: "select_poet 7 poets = Inr (S ''Robert Frost'')"
    using inst [THEN conjunct2, THEN conjunct2, THEN conjunct1] unfolding frost .
  have b: "S ''Robert Frost'' \<in> set poets"
    using inst [THEN conjunct2, THEN conjunct2, THEN conjunct2, THEN conjunct1] unfolding frost .
  have c: "card {i. i < 11 \<and> select_poet i poets = Inr (S ''Dr. Seuss'')} = 1"
    using inst [THEN conjunct2, THEN conjunct2, THEN conjunct2, THEN conjunct2, THEN conjunct1]
      seuss by (rule bspec)
  have d: "select_poet 7 [] = Inr (S ''Unknown Poet'')"
    using inst [THEN conjunct2, THEN conjunct2, THEN conjunct2, THEN conjunct2, THEN conjunct2,
                THEN conjunct1] .
  from a b seuss c d show ?thesis by (intro conjI)
qed

text \<open>
  C10, as the claim states it, fails: when the first choice of the provider's answer has
  no content, \<^verbatim>\<open>get_poem\<close> returns \<^verbatim>\<open>None\<close> together with the poet.
\<close>

theorem missing_content_gives_half_a_pair:
  "get_poem (example_world silent) (S ''a fine day'') =
     Inr \<lparr>returned = (None, Some (S ''Robert Frost'')), banners = [],
          requests = [\<lparr>api_key = S ''sk-test'', model = S ''gpt-5.1'',
                     system_content =
                       S ''You are Robert Frost. Write a short poem based on the user's description of their day.'',
                     user_content = S ''a fine day''\<rparr>]\<rparr>
   \<and> silent \<lparr>api_key = S ''sk-test'', model = S ''gpt-5.1'',
                     system_content =
                       S ''You are Robert Frost. Write a short poem based on the user's description of their day.'',
                     user_content = S ''a fine day''\<rparr> = Inr [None]"
  by (simp add: get_poem_silent) (simp add: silent_def)

text \<open>
  C10, amended. Whenever \<^verbatim>\<open>get_poem\<close> returns, the pair is either \<^verbatim>\<open>(None, None)\<close> or the
  content of the first choice of the provider's answer together with the selected poet.
  So the text is never there without the poet; the poet is there without the text
  exactly when that content is \<^verbatim>\<open>None\<close>. \<^verbatim>\<open>get_poem\<close> returns unless the constructor of
  the client raises, and then that exception leaves it.
\<close>

theorem returned_pair_has_the_poet_or_nothing:
  "(get_poem w day = Inr g \<longrightarrow>
      (returned g = (None, None) \<or>
       (\<exists>req rest. requests g = [req] \<and> banners g = []
          \<and> create w req = Inr (fst (returned g) # rest)
          \<and> snd (returned g) = Some (poets ! (draw w mod 11))))
      \<and> (fst (returned g) \<noteq> None \<longrightarrow> snd (returned g) \<noteq> None))
   \<and> (get_poem w day = Inl x \<longrightarrow>
        (\<exists>key. config_value w ''OPENAI_API_KEY'' = Some key \<and> key \<noteq> []
            \<and> new_client w key = Some x))
   \<and> ((\<forall>key. config_value w ''OPENAI_API_KEY'' = Some key \<longrightarrow> new_client w key = None) \<longrightarrow>
        (\<exists>g. get_poem w day = Inr g))"
proof -
  have shape: "(returned g = (None, None) \<or>
       (\<exists>req rest. requests g = [req] \<and> banners g = []
          \<and> create w req = Inr (fst (returned g) # rest)
          \<and> snd (returned g) = Some (poets ! (draw w mod 11))))
      \<and> (fst (returned g) \<noteq> None \<longrightarrow> snd (returned g) \<noteq> None)"
    if "get_poem w day = Inr g"
    using get_poem_shape [OF that] by auto
  have escapes: "\<exists>key. config_value w ''OPENAI_API_KEY'' = Some key \<and> key \<noteq> []
            \<and> new_client w key = Some x"
    if "get_poem w day = Inl x"
    using that by (rule get_poem_raises)
  have returns: "\<exists>g. get_poem w day = Inr g"
    if "\<forall>key. config_value w ''OPENAI_API_KEY'' = Some key \<longrightarrow> new_client w key = None"
    using that by (rule get_poem_returns)
  from shape escapes returns show ?thesis
    by blast
qed

theorem returned_pair_has_the_poet_or_nothing_witness:
  "get_poem (example_world answering) (S ''a fine day'') =
     Inr \<lparr>returned = (Some (S ''Rain taps soft''), Some (S ''Robert Frost'')), banners = [],
          requests = [\<lparr>api_key = S ''sk-test'', model = S ''gpt-5.1'',
                     system_content =
                       S ''You are Robert Frost. Write a short poem based on the user's description of their day.'',
                     user_content = S ''a fine day''\<rparr>]\<rparr>
   \<and> Some (S ''Robert Frost'') = Some (poets ! (draw (example_world answering) mod 11))
   \<and> get_poem broken_client_world (S ''a fine day'') =
        Inl (Exn ''OpenAIError'' (S ''client could not be built''))
   \<and> (\<exists>key. config_value broken_client_world ''OPENAI_API_KEY'' = Some key \<and> key \<noteq> []
          \<and> new_client broken_client_world key =
              Some (Exn ''OpenAIError'' (S ''client could not be built'')))"
proof -
  note inst = returned_pair_has_the_poet_or_nothing
      [where w = "example_world answering" and day = "S ''a fine day''"
         and g = "\<lparr>returned = (Some (S ''Rain taps soft''), Some (S ''Robert Frost'')), banners = [],
          requests = [\<lparr>api_key = S ''sk-test'', model = S ''gpt-5.1'',
                     system_content =
                       S ''You are Robert Frost. Write a short poem based on the user's description of their day.'',
                     user_content = S ''a fine day''\<rparr>]\<rparr>"]
  from get_poem_answering inst [THEN conjunct1]
  have "Some (S ''Robert Frost'') = Some (poets ! (draw (example_world answering) mod 11))"
    by auto
  moreover
  from get_poem_broken_client returned_pair_has_the_poet_or_nothing
      [where w = broken_client_world and day = "S ''a fine day''"
         and x = "Exn ''OpenAIError'' (S ''client could not be built'')"]
  have "\<exists>key. config_value broken_client_world ''OPENAI_API_KEY'' = Some key \<and> key \<noteq> []
          \<and> new_client broken_client_world key =
              Some (Exn ''OpenAIError'' (S ''client could not be built''))"
    by blast
  ultimately show ?thesis
    using get_poem_answering get_poem_broken_client by (intro conjI)
qed

end
